theory Spec2Isabelle
  imports Complex_Main "HOL-Library.Multiset" "HOL-Library.Sublist"
begin

section \<open>Data model of \<^verbatim>\<open>fire_entropy.py\<close>\<close>

text \<open>
  Python floats (and the single-precision components of \<^verbatim>\<open>QVector3D\<close>) are
  idealised as \<^typ>\<open>real\<close>: rounding, infinities and NaN are outside the model.
  The model therefore agrees with the code where no float operation overflows, as
  for an energy in \<open>[0, 1]\<close> and the widget's time step \<open>1 / 120\<close>. There the only
  operation of the simulation code that can raise is the division in the age
  computation; it is modelled as a fallible division. What Python raises once a float
  has overflowed to infinity (\<^verbatim>\<open>OverflowError\<close> from \<^verbatim>\<open>int\<close>, \<^verbatim>\<open>ValueError\<close> from
  \<^verbatim>\<open>math.sin\<close> and \<^verbatim>\<open>math.cos\<close>) has no counterpart over the reals: for
  such inputs the model says nothing about the code.
\<close>

datatype error = ZeroDivisionError

datatype QVector3D = QVector3D (vec_x: real) (vec_y: real) (vec_z: real)

definition dotProduct :: "QVector3D \<Rightarrow> QVector3D \<Rightarrow> real" where
  "dotProduct a b = vec_x a * vec_x b + vec_y a * vec_y b + vec_z a * vec_z b"

definition setX :: "real \<Rightarrow> QVector3D \<Rightarrow> QVector3D" where
  "setX v a = QVector3D v (vec_y a) (vec_z a)"

definition setY :: "real \<Rightarrow> QVector3D \<Rightarrow> QVector3D" where
  "setY v a = QVector3D (vec_x a) v (vec_z a)"

definition setZ :: "real \<Rightarrow> QVector3D \<Rightarrow> QVector3D" where
  "setZ v a = QVector3D (vec_x a) (vec_y a) v"

definition vec_scale :: "QVector3D \<Rightarrow> real \<Rightarrow> QVector3D" where
  "vec_scale a k = QVector3D (vec_x a * k) (vec_y a * k) (vec_z a * k)"

definition vec_add :: "QVector3D \<Rightarrow> QVector3D \<Rightarrow> QVector3D" where
  "vec_add a b = QVector3D (vec_x a + vec_x b) (vec_y a + vec_y b) (vec_z a + vec_z b)"

record FireParticle =
  pos :: QVector3D
  vel :: QVector3D
  life :: real
  life0 :: real
  radius :: real
  seed :: real

text \<open>The fields of \<^verbatim>\<open>FireWidget\<close> that the simulation and the renderer read or write.\<close>

record FireWidget =
  particles :: "FireParticle list"
  energy :: real
  rot_x :: real
  rot_y :: real
  dt :: real

section \<open>Color mapping\<close>

type_synonym rgb = "real \<times> real \<times> real"

definition clamp01 :: "real \<Rightarrow> real" where
  "clamp01 x = max 0 (min 1 x)"

definition lerp :: "real \<Rightarrow> real \<Rightarrow> real \<Rightarrow> real" where
  "lerp a b t = a + (b - a) * t"

definition lerp_color :: "rgb \<Rightarrow> rgb \<Rightarrow> real \<Rightarrow> rgb" where
  "lerp_color c0 c1 t =
     (let t = clamp01 t
      in (lerp (fst c0) (fst c1) t,
          lerp (fst (snd c0)) (fst (snd c1)) t,
          lerp (snd (snd c0)) (snd (snd c1)) t))"

definition low_hot :: rgb where "low_hot = (1.00, 0.15, 0.05)"
definition low_mid :: rgb where "low_mid = (1.00, 0.55, 0.10)"
definition low_tip :: rgb where "low_tip = (1.00, 0.95, 0.25)"
definition high_hot :: rgb where "high_hot = (0.10, 0.25, 1.00)"
definition high_mid :: rgb where "high_mid = (0.10, 0.95, 1.00)"
definition high_tip :: rgb where "high_tip = (0.90, 0.95, 1.00)"

text \<open>
  \<^verbatim>\<open>age01 ** 1.6\<close> is applied to the clamped age, a base in \<open>[0, 1]\<close>, where
  Python's float power and \<^const>\<open>powr\<close> agree (both give \<open>0\<close> at base \<open>0\<close>).
\<close>

definition fire_color :: "real \<Rightarrow> real \<Rightarrow> rgb" where
  "fire_color energy_in age_in =
     (let energy = clamp01 energy_in;
          age01 = clamp01 age_in;
          hot = lerp_color low_hot high_hot energy;
          mid = lerp_color low_mid high_mid energy;
          tip = lerp_color low_tip high_tip energy;
          rgb = (if age01 < 0.5 then lerp_color hot mid (age01 / 0.5)
                 else lerp_color mid tip ((age01 - 0.5) / 0.5));
          fade = 1.0 - (age01 powr 1.6) * 0.75
      in (fst rgb * fade, fst (snd rgb) * fade, snd (snd rgb) * fade))"

section \<open>Simulation\<close>

subsection \<open>Spawning\<close>

text \<open>
  The global random generator is an input: \<open>rs k\<close> is the value returned by the
  \<open>k\<close>-th call of \<^verbatim>\<open>random.random()\<close> made during one call of
  \<^verbatim>\<open>_spawn_particles\<close>, a number in \<open>[0, 1)\<close>. \<^verbatim>\<open>random.uniform(a, b)\<close>
  is \<^verbatim>\<open>a + (b - a) * random()\<close>.
\<close>

definition uniform :: "real \<Rightarrow> real \<Rightarrow> real \<Rightarrow> real" where
  "uniform a b u = a + (b - a) * u"

text \<open>Python's \<^verbatim>\<open>int()\<close> on a float truncates towards zero.\<close>

definition py_int :: "real \<Rightarrow> int" where
  "py_int v = (if 0 \<le> v then \<lfloor>v\<rfloor> else \<lceil>v\<rceil>)"

definition spawn_count :: "real \<Rightarrow> real \<Rightarrow> int" where
  "spawn_count e u =
     (let spawn_float = lerp 1.5 10.0 e;
          count = py_int spawn_float
      in if u < spawn_float - real_of_int count then count + 1 else count)"

text \<open>One pass of the loop body: the particle built from the nine draws starting at \<open>k\<close>.\<close>

definition new_particle :: "real \<Rightarrow> (nat \<Rightarrow> real) \<Rightarrow> nat \<Rightarrow> FireParticle" where
  "new_particle e rs k =
     (let r = 0.18 + 0.10 * (1.0 - e);
          angle = rs k * (2 * pi);
          rad = (rs (k + 1) powr 0.6) * r;
          px = cos angle * rad;
          pz = sin angle * rad;
          py = - 1.0 + uniform 0.0 0.05 (rs (k + 2));
          base_up = lerp 0.9 2.4 e;
          wy = uniform (base_up * 0.6) (base_up * 1.1) (rs (k + 3));
          side = lerp 0.45 0.9 e;
          wx = uniform (- side) side (rs (k + 4));
          wz = uniform (- side) side (rs (k + 5));
          l0 = uniform (lerp 0.55 0.85 e) (lerp 0.85 1.25 e) (rs (k + 6));
          rd = uniform (lerp 0.045 0.030 e) (lerp 0.070 0.050 e) (rs (k + 7))
      in \<lparr> pos = QVector3D px py pz, vel = QVector3D wx wy wz,
           life = l0, life0 = l0, radius = rd, seed = rs (k + 8) * 9999.0 \<rparr>)"

text \<open>\<^verbatim>\<open>for _ in range(count)\<close>: \<open>n\<close> passes left, \<open>k\<close> draws consumed so far.\<close>

fun spawn_loop :: "real \<Rightarrow> (nat \<Rightarrow> real) \<Rightarrow> nat \<Rightarrow> nat \<Rightarrow> FireParticle list \<Rightarrow> FireParticle list" where
  "spawn_loop e rs 0 k ps = ps"
| "spawn_loop e rs (Suc n) k ps = spawn_loop e rs n (k + 9) (ps @ [new_particle e rs k])"

text \<open>The list after the loop, before the cap; \<^verbatim>\<open>range\<close> of a negative count is empty.\<close>

definition spawn_append :: "(nat \<Rightarrow> real) \<Rightarrow> FireWidget \<Rightarrow> FireParticle list" where
  "spawn_append rs w =
     spawn_loop (energy w) rs (nat (spawn_count (energy w) (rs 0))) 1 (particles w)"

text \<open>\<^verbatim>\<open>xs[-2500:]\<close> on a list longer than 2500 is its last 2500 elements.\<close>

definition cap_particles :: "FireParticle list \<Rightarrow> FireParticle list" where
  "cap_particles ps = (if length ps > 2500 then drop (length ps - 2500) ps else ps)"

definition spawn_particles :: "(nat \<Rightarrow> real) \<Rightarrow> FireWidget \<Rightarrow> FireWidget" where
  "spawn_particles rs w = w \<lparr> particles := cap_particles (spawn_append rs w) \<rparr>"

subsection \<open>Updating\<close>

definition py_div :: "real \<Rightarrow> real \<Rightarrow> error + real" where
  "py_div a b = (if b = 0 then Inl ZeroDivisionError else Inr (a / b))"

text \<open>\<^verbatim>\<open>1.0 - (p.life / max(p.life0, 1e-6))\<close>, as in the update loop and in the renderer.\<close>

definition age01_of :: "FireParticle \<Rightarrow> error + real" where
  "age01_of p =
     (case py_div (life p) (max (life0 p) (1 / 1000000)) of
        Inl err \<Rightarrow> Inl err
      | Inr q \<Rightarrow> Inr (1.0 - q))"

text \<open>The physics of one surviving particle, after its life was decremented.\<close>

definition move_particle ::
  "real \<Rightarrow> real \<Rightarrow> real \<Rightarrow> real \<Rightarrow> real \<Rightarrow> real \<Rightarrow> FireParticle \<Rightarrow> FireParticle" where
  "move_particle d buoyancy swirl damping t age01 p =
     (let v1 = setY (vec_y (vel p) + buoyancy * d) (vel p);
          phase = (seed p * 0.001) + (age01 * 6.0) + t * 3.0;
          tx = sin (phase * 3.7) * cos (phase * 1.9);
          tz = cos (phase * 2.9) * sin (phase * 2.3);
          v2 = setX (vec_x v1 + tx * swirl * d) v1;
          v3 = setZ (vec_z v2 + tz * swirl * d) v2;
          v4 = vec_scale v3 damping;
          p1 = vec_add (pos p) (vec_scale v4 d);
          rd = radius p * (1.0 + 0.25 * d);
          p2 = setX (vec_x p1 * 0.999) p1;
          p3 = setZ (vec_z p2 * 0.999) p2
      in p \<lparr> pos := p3, vel := v4, radius := rd \<rparr>)"

text \<open>
  The body of \<^verbatim>\<open>for p in self.particles\<close>: \<open>Inr None\<close> is the \<^verbatim>\<open>continue\<close>
  of a dead particle, \<open>Inr (Some p')\<close> the particle appended to \<^verbatim>\<open>alive\<close>.
\<close>

definition update_particle ::
  "real \<Rightarrow> real \<Rightarrow> real \<Rightarrow> real \<Rightarrow> real \<Rightarrow> FireParticle \<Rightarrow> error + FireParticle option" where
  "update_particle d buoyancy swirl damping t p =
     (let p1 = p \<lparr> life := life p - d \<rparr>
      in if life p1 \<le> 0 then Inr None
         else (case age01_of p1 of
                 Inl err \<Rightarrow> Inl err
               | Inr age01 \<Rightarrow> Inr (Some (move_particle d buoyancy swirl damping t age01 p1))))"

fun update_loop ::
  "real \<Rightarrow> real \<Rightarrow> real \<Rightarrow> real \<Rightarrow> real \<Rightarrow> FireParticle list \<Rightarrow> FireParticle list
     \<Rightarrow> error + FireParticle list" where
  "update_loop d buoyancy swirl damping t [] alive = Inr alive"
| "update_loop d buoyancy swirl damping t (p # ps) alive =
     (case update_particle d buoyancy swirl damping t p of
        Inl err \<Rightarrow> Inl err
      | Inr None \<Rightarrow> update_loop d buoyancy swirl damping t ps alive
      | Inr (Some p') \<Rightarrow> update_loop d buoyancy swirl damping t ps (alive @ [p']))"

text \<open>
  \<open>remaining\<close> is the value of \<^verbatim>\<open>self.timer.remainingTime()\<close>, an integer number of
  milliseconds read from the environment; Python's \<^verbatim>\<open>%\<close> with a positive modulus is
  \<^const>\<open>modulo\<close> on \<^typ>\<open>int\<close>.
\<close>

definition update_particles :: "real \<Rightarrow> int \<Rightarrow> FireWidget \<Rightarrow> error + FireWidget" where
  "update_particles d remaining w =
     (let e = energy w;
          buoyancy = lerp 1.2 3.2 e;
          swirl = lerp 0.8 2.1 e;
          damping = lerp 0.985 0.992 e;
          t = real_of_int (remaining mod 1000) / 1000.0
      in (case update_loop d buoyancy swirl damping t (particles w) [] of
            Inl err \<Rightarrow> Inl err
          | Inr alive \<Rightarrow> Inr (w \<lparr> particles := alive \<rparr>)))"

definition tick :: "(nat \<Rightarrow> real) \<Rightarrow> int \<Rightarrow> FireWidget \<Rightarrow> error + FireWidget" where
  "tick rs remaining w = update_particles (dt w) remaining (spawn_particles rs w)"

section \<open>Rendering\<close>

text \<open>
  \<^verbatim>\<open>sorted(xs, key=f, reverse=True)\<close> is a stable sort in descending key order:
  elements with equal keys keep their order in \<open>xs\<close>. CPython obtains it by
  reversing, sorting stably in ascending order, and reversing again.
\<close>

definition sorted_reverse :: "('a \<Rightarrow> real) \<Rightarrow> 'a list \<Rightarrow> 'a list" where
  "sorted_reverse f xs = rev (sort_key f (rev xs))"

definition cam_dir :: QVector3D where
  "cam_dir = QVector3D 0 0 1"

definition depth :: "FireParticle \<Rightarrow> real" where
  "depth p = dotProduct (pos p) cam_dir"

text \<open>The arguments of one call of \<^verbatim>\<open>_draw_sphere\<close>.\<close>

record sphere =
  sx :: real
  sy :: real
  sz :: real
  sradius :: real
  color_rgb :: rgb
  alpha :: real

definition draw_particle :: "real \<Rightarrow> FireParticle \<Rightarrow> error + sphere" where
  "draw_particle e p =
     (case age01_of p of
        Inl err \<Rightarrow> Inl err
      | Inr age01 \<Rightarrow>
          Inr \<lparr> sx = vec_x (pos p), sy = vec_y (pos p), sz = vec_z (pos p),
                sradius = radius p, color_rgb = fire_color e age01,
                alpha = 0.18 * (1.0 - age01) + 0.02 \<rparr>)"

text \<open>\<^verbatim>\<open>for p in parts_sorted\<close>: the spheres drawn, in drawing order.\<close>

fun draw_loop :: "real \<Rightarrow> FireParticle list \<Rightarrow> sphere list \<Rightarrow> error + sphere list" where
  "draw_loop e [] drawn = Inr drawn"
| "draw_loop e (p # ps) drawn =
     (case draw_particle e p of
        Inl err \<Rightarrow> Inl err
      | Inr s \<Rightarrow> draw_loop e ps (drawn @ [s]))"

definition paintGL :: "FireWidget \<Rightarrow> error + sphere list" where
  "paintGL w = draw_loop (energy w) (sorted_reverse depth (particles w)) []"

subsection \<open>The camera\<close>

text \<open>
  Before drawing, \<^verbatim>\<open>paintGL\<close> sets the modelview matrix with
  \<^verbatim>\<open>glLoadIdentity()\<close>, \<^verbatim>\<open>glTranslatef(0.0, -0.2, -5.0)\<close>,
  \<^verbatim>\<open>glRotatef(self.rot_x, 1, 0, 0)\<close> and \<^verbatim>\<open>glRotatef(self.rot_y, 0, 1, 0)\<close>.
  Each call multiplies the current matrix on the right, so a world point is rotated
  about the y axis, then about the x axis, then translated; the angles are in degrees.
  In the resulting eye coordinates the camera is at the origin and looks along the
  negative z axis.
\<close>

definition radians :: "real \<Rightarrow> real" where
  "radians a = a * pi / 180"

definition rotate_y :: "real \<Rightarrow> QVector3D \<Rightarrow> QVector3D" where
  "rotate_y a p =
     QVector3D (cos (radians a) * vec_x p + sin (radians a) * vec_z p)
               (vec_y p)
               (- sin (radians a) * vec_x p + cos (radians a) * vec_z p)"

definition rotate_x :: "real \<Rightarrow> QVector3D \<Rightarrow> QVector3D" where
  "rotate_x a p =
     QVector3D (vec_x p)
               (cos (radians a) * vec_y p - sin (radians a) * vec_z p)
               (sin (radians a) * vec_y p + cos (radians a) * vec_z p)"

definition eye_coords :: "FireWidget \<Rightarrow> QVector3D \<Rightarrow> QVector3D" where
  "eye_coords w p =
     vec_add (QVector3D 0.0 (- 0.2) (- 5.0)) (rotate_x (rot_x w) (rotate_y (rot_y w) p))"

text \<open>How far in front of the camera a world point lies, along the viewing axis.\<close>

definition view_depth :: "FireWidget \<Rightarrow> QVector3D \<Rightarrow> real" where
  "view_depth w p = - vec_z (eye_coords w p)"

text \<open>
  The camera's view-forward vector in world coordinates: the unit vector whose dot
  product with a position is, up to the constant \<open>5\<close>, the depth of that position.
\<close>

definition view_forward :: "FireWidget \<Rightarrow> QVector3D" where
  "view_forward w =
     QVector3D (cos (radians (rot_x w)) * sin (radians (rot_y w)))
               (- sin (radians (rot_x w)))
               (- (cos (radians (rot_x w)) * cos (radians (rot_y w))))"

section \<open>Notions used in the statements\<close>

text \<open>All three components of a colour lie in \<open>[0, 1]\<close>.\<close>

definition unit_rgb :: "rgb \<Rightarrow> bool" where
  "unit_rgb c = (0 \<le> fst c \<and> fst c \<le> 1 \<and> 0 \<le> fst (snd c) \<and> fst (snd c) \<le> 1
                 \<and> 0 \<le> snd (snd c) \<and> snd (snd c) \<le> 1)"

text \<open>
  What the update loop appends to \<^verbatim>\<open>alive\<close> for a particle \<open>p\<close> that survives:
  \<open>p\<close> with its life decremented and the physics applied at the age computed from
  the decremented life.
\<close>

definition stepped :: "real \<Rightarrow> real \<Rightarrow> real \<Rightarrow> real \<Rightarrow> real \<Rightarrow> FireParticle \<Rightarrow> FireParticle" where
  "stepped d buoyancy swirl damping t p =
     move_particle d buoyancy swirl damping t
       (1 - (life p - d) / max (life0 p) (1 / 1000000)) (p \<lparr> life := life p - d \<rparr>)"

text \<open>Concrete inputs: a generator that always returns \<open>0\<close>, the widget as
  \<^verbatim>\<open>__init__\<close> leaves it, and one particle.\<close>

definition zero_draws :: "nat \<Rightarrow> real" where
  "zero_draws k = 0"

definition init_widget :: FireWidget where
  "init_widget = \<lparr> particles = [], energy = 0.5, rot_x = 18, rot_y = 35, dt = 1.0 / 120.0 \<rparr>"

definition test_particle :: FireParticle where
  "test_particle = \<lparr> pos = QVector3D 0 (- 1) 0, vel = QVector3D 0 1 0,
       life = 1, life0 = 1, radius = 0.05, seed = 0 \<rparr>"

text \<open>Two particles just above the burner, one on each side of the plane \<open>z = 0\<close>,
  in the widget as \<^verbatim>\<open>__init__\<close> leaves its camera (\<open>rot_x = 18\<close>, \<open>rot_y = 35\<close>).\<close>

definition far_particle :: FireParticle where
  "far_particle = \<lparr> pos = QVector3D 0 (- 1) (- 0.1), vel = QVector3D 0 1 0,
       life = 1, life0 = 1, radius = 0.05, seed = 0 \<rparr>"

definition near_particle :: FireParticle where
  "near_particle = \<lparr> pos = QVector3D 0 (- 1) 0.1, vel = QVector3D 0 1 0,
       life = 1, life0 = 1, radius = 0.05, seed = 0 \<rparr>"

definition two_particle_widget :: FireWidget where
  "two_particle_widget = init_widget \<lparr> particles := [far_particle, near_particle] \<rparr>"

text \<open>
  The colour ramp in the words of the specification: an unclamped componentwise linear
  blend, the energy-interpolated hot, mid and tip references, the two-segment ramp over
  the age fraction, and the fade factor applied to each component.
\<close>

definition blend :: "rgb \<Rightarrow> rgb \<Rightarrow> real \<Rightarrow> rgb" where
  "blend c0 c1 t =
     (fst c0 + (fst c1 - fst c0) * t,
      fst (snd c0) + (fst (snd c1) - fst (snd c0)) * t,
      snd (snd c0) + (snd (snd c1) - snd (snd c0)) * t)"

definition scale_rgb :: "real \<Rightarrow> rgb \<Rightarrow> rgb" where
  "scale_rgb f c = (fst c * f, fst (snd c) * f, snd (snd c) * f)"

definition spec_hot :: "real \<Rightarrow> rgb" where "spec_hot e = blend low_hot high_hot e"
definition spec_mid :: "real \<Rightarrow> rgb" where "spec_mid e = blend low_mid high_mid e"
definition spec_tip :: "real \<Rightarrow> rgb" where "spec_tip e = blend low_tip high_tip e"

definition spec_color :: "real \<Rightarrow> real \<Rightarrow> rgb" where
  "spec_color e a =
     scale_rgb (1 - (a powr 1.6) * 0.75)
       (if a < 0.5 then blend (spec_hot e) (spec_mid e) (a / 0.5)
        else blend (spec_mid e) (spec_tip e) ((a - 0.5) / 0.5))"

section \<open>Properties of the color mapping\<close>

lemma clamp01_bounds: "0 \<le> clamp01 v \<and> clamp01 v \<le> 1"
  by (simp add: clamp01_def)

lemma clamp01_id: "0 \<le> v \<Longrightarrow> v \<le> 1 \<Longrightarrow> clamp01 v = v"
  by (simp add: clamp01_def)

lemma clamp01_idem: "clamp01 (clamp01 v) = clamp01 v"
  using clamp01_bounds [of v] by (simp add: clamp01_id)

lemma lerp_convex: "lerp a b t = (1 - t) * a + t * b"
  by (simp add: lerp_def algebra_simps)

lemma lerp_unit:
  assumes "0 \<le> a" "a \<le> 1" "0 \<le> b" "b \<le> 1" "0 \<le> t" "t \<le> 1"
  shows "0 \<le> lerp a b t \<and> lerp a b t \<le> 1"
proof -
  have lo: "0 \<le> (1 - t) * a + t * b"
    using assms by (intro add_nonneg_nonneg mult_nonneg_nonneg) simp_all
  have "(1 - t) * a \<le> (1 - t) * 1" using assms by (intro mult_left_mono) simp_all
  moreover have "t * b \<le> t * 1" using assms by (intro mult_left_mono) simp_all
  ultimately have "(1 - t) * a + t * b \<le> 1" by simp
  with lo show ?thesis by (simp add: lerp_convex)
qed

lemma lerp_color_unit: "unit_rgb c0 \<Longrightarrow> unit_rgb c1 \<Longrightarrow> unit_rgb (lerp_color c0 c1 t)"
  using clamp01_bounds [of t]
  by (simp add: lerp_color_def unit_rgb_def Let_def lerp_unit)

lemma palette_unit:
  "unit_rgb low_hot" "unit_rgb low_mid" "unit_rgb low_tip"
  "unit_rgb high_hot" "unit_rgb high_mid" "unit_rgb high_tip"
  by (simp_all add: unit_rgb_def low_hot_def low_mid_def low_tip_def
        high_hot_def high_mid_def high_tip_def)

lemma fade_unit:
  assumes "0 \<le> a" "a \<le> 1"
  shows "1 / 4 \<le> 1 - (a powr 1.6) * 0.75 \<and> 1 - (a powr 1.6) * 0.75 \<le> (1::real)"
proof -
  have "a powr 1.6 \<le> 1" using assms by (intro powr_le1) simp_all
  moreover have "0 \<le> a powr 1.6" by simp
  ultimately show ?thesis by simp
qed

lemma scale_unit:
  fixes c f :: real
  assumes "0 \<le> c" "c \<le> 1" "0 \<le> f" "f \<le> 1"
  shows "0 \<le> c * f \<and> c * f \<le> 1"
  using assms by (simp add: mult_le_one)

lemma fire_color_clamp: "fire_color e a = fire_color (clamp01 e) (clamp01 a)"
  by (simp add: fire_color_def clamp01_idem)

lemma fire_color_unit_rgb: "unit_rgb (fire_color e a)"
proof -
  define e' where "e' = clamp01 e"
  define a' where "a' = clamp01 a"
  define hot where "hot = lerp_color low_hot high_hot e'"
  define mid where "mid = lerp_color low_mid high_mid e'"
  define tip where "tip = lerp_color low_tip high_tip e'"
  define c where "c = (if a' < 0.5 then lerp_color hot mid (a' / 0.5)
                 else lerp_color mid tip ((a' - 0.5) / 0.5))"
  define f where "f = 1 - (a' powr 1.6) * 0.75"
  have u: "unit_rgb hot" "unit_rgb mid" "unit_rgb tip"
    by (simp_all add: hot_def mid_def tip_def lerp_color_unit palette_unit)
  have uc: "unit_rgb c" by (simp add: c_def lerp_color_unit u)
  have "0 \<le> a'" "a' \<le> 1" using clamp01_bounds [of a] by (simp_all add: a'_def)
  then have ff: "0 \<le> f" "f \<le> 1" using fade_unit [of a'] by (simp_all add: f_def)
  have eq: "fire_color e a = (fst c * f, fst (snd c) * f, snd (snd c) * f)"
    by (simp add: fire_color_def Let_def c_def f_def hot_def mid_def tip_def e'_def a'_def)
  show ?thesis
    using uc ff scale_unit unfolding eq unit_rgb_def by simp
qed

text \<open>
  Claim C6. The color function is a total function of its two arguments alone: for
  every real energy and age fraction, also outside \<open>[0, 1]\<close>, it returns the colour of
  the clamped arguments, and each component of the result lies in \<open>[0, 1]\<close>.
\<close>

theorem fire_color_total_unit:
  "unit_rgb (fire_color e a) \<and> fire_color e a = fire_color (clamp01 e) (clamp01 a)"
  using fire_color_unit_rgb [of e a] fire_color_clamp [of e a] by simp

lemma lerp_color_blend: "0 \<le> t \<Longrightarrow> t \<le> 1 \<Longrightarrow> lerp_color c0 c1 t = blend c0 c1 t"
  by (simp add: lerp_color_def blend_def lerp_def clamp01_id)

lemma fire_color_spec:
  assumes "0 \<le> e" "e \<le> 1" "0 \<le> a" "a \<le> 1"
  shows "fire_color e a = spec_color e a"
proof -
  have t1: "0 \<le> a / 0.5 \<and> a / 0.5 \<le> 1" if "a < 0.5" using assms that by simp
  have t2: "0 \<le> (a - 0.5) / 0.5 \<and> (a - 0.5) / 0.5 \<le> 1" if "\<not> a < 0.5" using assms that by simp
  show ?thesis
  proof (cases "a < 0.5")
    case True
    with t1 assms show ?thesis
      by (simp add: fire_color_def spec_color_def Let_def clamp01_id lerp_color_blend
            spec_hot_def spec_mid_def spec_tip_def scale_rgb_def)
  next
    case False
    with t2 assms show ?thesis
      by (simp add: fire_color_def spec_color_def Let_def clamp01_id lerp_color_blend
            spec_hot_def spec_mid_def spec_tip_def scale_rgb_def)
  qed
qed

lemma spec_color_0: "spec_color e 0 = spec_hot e"
  by (simp add: spec_color_def scale_rgb_def blend_def)

lemma spec_color_1: "spec_color e 1 = scale_rgb 0.25 (spec_tip e)"
  by (simp add: spec_color_def scale_rgb_def blend_def)

text \<open>
  Claim C7. For an energy and an age fraction in \<open>[0, 1]\<close>, the colour computed by the
  code is the ramp of the specification: below age \<open>0.5\<close> the blend of the hot and mid
  references with factor \<open>age / 0.5\<close>, otherwise the blend of mid and tip with factor
  \<open>(age - 0.5) / 0.5\<close>, each component multiplied by \<open>1 - age powr 1.6 * 0.75\<close>.
  At age \<open>0\<close> it is the hot reference, at age \<open>1\<close> the tip reference scaled by \<open>0.25\<close>.
\<close>

theorem fire_color_ramp:
  assumes "0 \<le> e" and "e \<le> 1" and "0 \<le> a" and "a \<le> 1"
  shows "fire_color e a = spec_color e a
       \<and> fire_color e 0 = spec_hot e
       \<and> fire_color e 1 = scale_rgb 0.25 (spec_tip e)"
  using fire_color_spec [OF assms] fire_color_spec [OF assms(1,2), of 0]
    fire_color_spec [OF assms(1,2), of 1]
  by (simp add: spec_color_0 spec_color_1)

theorem fire_color_ramp_witness:
  "(0::real) \<le> 1 / 2 \<and> (1 / 2 :: real) \<le> 1 \<and> (0::real) \<le> 1 / 4 \<and> (1 / 4 :: real) \<le> 1
   \<and> fire_color (1 / 2) (1 / 4) = spec_color (1 / 2) (1 / 4)
   \<and> fire_color (1 / 2) 0 = spec_hot (1 / 2)
   \<and> fire_color (1 / 2) 1 = scale_rgb 0.25 (spec_tip (1 / 2))"
  using fire_color_ramp [of "1 / 2" "1 / 4"] by simp


section \<open>Properties of the loops\<close>

lemma age01_of_eq: "age01_of p = Inr (1 - life p / max (life0 p) (1 / 1000000))"
proof -
  have "max (life0 p) (1 / 1000000) \<noteq> 0" by (simp add: max_def)
  then show ?thesis by (simp add: age01_of_def py_div_def)
qed

lemma update_particle_eq:
  "update_particle d b s dm t p =
     Inr (if life p - d \<le> 0 then None else Some (stepped d b s dm t p))"
  by (simp add: update_particle_def Let_def age01_of_eq stepped_def)

lemma update_loop_eq:
  "update_loop d b s dm t ps alive =
     Inr (alive @ map (stepped d b s dm t) (filter (\<lambda>p. 0 < life p - d) ps))"
  by (induction ps arbitrary: alive) (simp_all add: update_particle_eq not_less)

lemma life_move [simp]: "life (move_particle d b s dm t a p) = life p"
  and life0_move [simp]: "life0 (move_particle d b s dm t a p) = life0 p"
  and seed_move [simp]: "seed (move_particle d b s dm t a p) = seed p"
  and radius_move [simp]: "radius (move_particle d b s dm t a p) = radius p * (1 + 0.25 * d)"
  by (simp_all add: move_particle_def Let_def)

lemma life_stepped: "life (stepped d b s dm t p) = life p - d"
  by (simp add: stepped_def)

lemma update_particles_eq:
  "update_particles d rm w =
     Inr (w \<lparr> particles :=
            map (stepped d (lerp 1.2 3.2 (energy w)) (lerp 0.8 2.1 (energy w))
                   (lerp 0.985 0.992 (energy w)) (real_of_int (rm mod 1000) / 1000))
              (filter (\<lambda>p. 0 < life p - d) (particles w)) \<rparr>)"
  by (simp add: update_particles_def Let_def update_loop_eq)

lemma spawn_loop_eq:
  "spawn_loop e rs n k ps = ps @ map (\<lambda>i. new_particle e rs (k + 9 * i)) [0..<n]"
proof (induction n arbitrary: k ps)
  case 0
  then show ?case by simp
next
  case (Suc n)
  have "map (\<lambda>i. new_particle e rs (k + 9 * i)) [0..<Suc n]
      = new_particle e rs k # map (\<lambda>i. new_particle e rs (k + 9 + 9 * i)) [0..<n]"
    by (simp add: upt_conv_Cons map_Suc_upt [symmetric] add.assoc del: upt_Suc)
  with Suc show ?case by simp
qed

lemma spawn_append_eq:
  "spawn_append rs w = particles w @
     map (\<lambda>i. new_particle (energy w) rs (1 + 9 * i)) [0..<nat (spawn_count (energy w) (rs 0))]"
  by (simp add: spawn_append_def spawn_loop_eq)

lemma cap_suffix: "cap_particles ps = drop (length ps - 2500) ps"
  by (simp add: cap_particles_def)

text \<open>
  Claim C1. Whatever the prior population and the energy, the collection holds at most
  2500 particles right after a spawn call: the new particles are appended to the old
  ones, and the result is what remains of that list when its oldest
  \<open>length - 2500\<close> elements are removed from the front.
\<close>

theorem spawn_population_cap:
  "length (particles (spawn_particles rs w)) = min 2500 (length (spawn_append rs w))
   \<and> length (particles (spawn_particles rs w)) \<le> 2500
   \<and> (\<exists>new. spawn_append rs w = particles w @ new)
   \<and> (\<exists>old. spawn_append rs w = old @ particles (spawn_particles rs w)
             \<and> length old = length (spawn_append rs w) - 2500)"
proof -
  let ?all = "spawn_append rs w"
  let ?res = "particles (spawn_particles rs w)"
  have res: "?res = drop (length ?all - 2500) ?all"
    by (simp add: spawn_particles_def cap_suffix)
  have c1: "length ?res = min 2500 (length ?all)" by (simp add: res)
  have c3: "\<exists>new. ?all = particles w @ new" by (simp add: spawn_append_eq)
  have "?all = take (length ?all - 2500) ?all @ ?res" by (simp add: res)
  moreover have "length (take (length ?all - 2500) ?all) = length ?all - 2500" by simp
  ultimately have c4: "\<exists>old. ?all = old @ ?res \<and> length old = length ?all - 2500" by blast
  from c1 c3 c4 show ?thesis by simp
qed

text \<open>
  Claim C2. An advance step never fails; the lives of the particles of the new
  collection are the lives of the old particles minus \<open>dt\<close>, for exactly those old
  particles whose decremented life is positive, in the old order. Hence every particle
  of the new collection has a positive life. A particle whose decremented life is
  \<open>\<le> 0\<close> takes the \<^verbatim>\<open>continue\<close> branch (no physics), and the step gives the same
  result when such particles are removed beforehand.
\<close>

theorem advance_life_decrement:
  "(\<exists>w'. update_particles d rm w = Inr w'
        \<and> map life (particles w') = map (\<lambda>p. life p - d) (filter (\<lambda>p. 0 < life p - d) (particles w))
        \<and> list_all (\<lambda>p. 0 < life p) (particles w')
        \<and> update_particles d rm (w \<lparr> particles := filter (\<lambda>p. 0 < life p - d) (particles w) \<rparr>) = Inr w')
   \<and> (update_particle d b s dm t p = Inr None) = (life p - d \<le> 0)"
proof -
  let ?f = "stepped d (lerp 1.2 3.2 (energy w)) (lerp 0.8 2.1 (energy w))
                   (lerp 0.985 0.992 (energy w)) (real_of_int (rm mod 1000) / 1000)"
  let ?live = "filter (\<lambda>p. 0 < life p - d) (particles w)"
  let ?w' = "w \<lparr> particles := map ?f ?live \<rparr>"
  have a: "update_particles d rm w = Inr ?w'" by (simp add: update_particles_eq)
  have b: "map life (particles ?w') = map (\<lambda>p. life p - d) ?live"
    by (simp add: life_stepped)
  have c: "list_all (\<lambda>p. 0 < life p) (particles ?w')"
    by (simp add: list_all_iff life_stepped)
  have e: "update_particles d rm (w \<lparr> particles := ?live \<rparr>) = Inr ?w'"
    by (simp add: update_particles_eq)
  have f: "(update_particle d b s dm t p = Inr None) = (life p - d \<le> 0)"
    by (simp add: update_particle_eq)
  from a b c e f show ?thesis by blast
qed

section \<open>Properties of spawning\<close>

lemma py_int_floor: "0 \<le> v \<Longrightarrow> py_int v = \<lfloor>v\<rfloor>"
  by (simp add: py_int_def)

lemma spawn_rate_range:
  assumes "0 \<le> e" "e \<le> 1"
  shows "1.5 \<le> lerp 1.5 10.0 e \<and> lerp 1.5 10.0 e \<le> 10"
  using assms by (simp add: lerp_def)

lemma spawn_count_eq:
  assumes "0 \<le> e" "e \<le> 1"
  shows "spawn_count e u =
           \<lfloor>lerp 1.5 10.0 e\<rfloor> + (if u < frac (lerp 1.5 10.0 e) then 1 else 0)"
proof -
  have "0 \<le> lerp 1.5 10.0 e" using spawn_rate_range [OF assms] by simp
  then show ?thesis by (simp add: spawn_count_def Let_def py_int_floor frac_def)
qed

lemma spawn_count_ge1:
  assumes "0 \<le> e" "e \<le> 1"
  shows "1 \<le> \<lfloor>lerp 1.5 10.0 e\<rfloor> \<and> 1 \<le> spawn_count e u"
proof -
  have "1 \<le> lerp 1.5 10.0 e" using spawn_rate_range [OF assms] by simp
  then have "1 \<le> \<lfloor>lerp 1.5 10.0 e\<rfloor>" by (simp add: le_floor_iff)
  then show ?thesis by (simp add: spawn_count_eq [OF assms])
qed

lemma spawn_count_one: "0 \<le> u \<Longrightarrow> spawn_count 1 u = 10"
  by (simp add: spawn_count_def Let_def py_int_def lerp_def)

lemma spawn_count_zero: "spawn_count 0 u = (if u < 0.5 then 2 else 1)"
proof -
  have "\<lfloor>3 / 2 :: real\<rfloor> = 1" by (simp add: floor_eq_iff)
  then show ?thesis by (simp add: spawn_count_def Let_def py_int_def lerp_def)
qed

lemma new_particle_fields:
  "life (new_particle e rs k) = life0 (new_particle e rs k)"
  "life0 (new_particle e rs k) = uniform (lerp 0.55 0.85 e) (lerp 0.85 1.25 e) (rs (k + 6))"
  "radius (new_particle e rs k) = uniform (lerp 0.045 0.030 e) (lerp 0.070 0.050 e) (rs (k + 7))"
  by (simp_all add: new_particle_def Let_def)

lemma new_life0_lower:
  assumes "0 \<le> e" "e \<le> 1" "0 \<le> u"
  shows "0.55 \<le> uniform (lerp 0.55 0.85 e) (lerp 0.85 1.25 e) u"
proof -
  define q where "q = (0.3 + 0.1 * e) * u"
  have "0 \<le> q" unfolding q_def using assms by (intro mult_nonneg_nonneg) simp_all
  moreover have "uniform (lerp 0.55 0.85 e) (lerp 0.85 1.25 e) u = 0.55 + 0.3 * e + q"
    by (simp add: q_def uniform_def lerp_def algebra_simps)
  ultimately show ?thesis using assms by simp
qed

lemma new_radius_lower:
  assumes "0 \<le> e" "e \<le> 1" "0 \<le> u"
  shows "0.03 \<le> uniform (lerp 0.045 0.030 e) (lerp 0.070 0.050 e) u"
proof -
  define q where "q = (0.025 - 0.005 * e) * u"
  have "0 \<le> q" unfolding q_def using assms by (intro mult_nonneg_nonneg) simp_all
  moreover have "uniform (lerp 0.045 0.030 e) (lerp 0.070 0.050 e) u = 0.045 - 0.015 * e + q"
    by (simp add: q_def uniform_def lerp_def algebra_simps)
  ultimately show ?thesis using assms by simp
qed

lemma new_particle_ok:
  assumes "0 \<le> e" "e \<le> 1" "0 \<le> rs (k + 6)" "0 \<le> rs (k + 7)"
  shows "0 \<le> radius (new_particle e rs k) \<and> life (new_particle e rs k) \<le> life0 (new_particle e rs k)
       \<and> 0.55 \<le> life (new_particle e rs k)"
  using new_life0_lower [OF assms(1,2,3)] new_radius_lower [OF assms(1,2,4)]
  by (simp add: new_particle_fields)

text \<open>
  Claim C3. For an energy in \<open>[0, 1]\<close> and a draw \<open>u\<close> in \<open>[0, 1)\<close>, one spawn call
  appends \<open>floor rate\<close> particles, \<open>rate = lerp 1.5 10.0 energy\<close>, plus one more exactly
  when \<open>u\<close> is below the fractional part of the rate: the draws in \<open>[0, 1)\<close> that give the
  extra particle are those of the interval \<open>[0, frac rate)\<close>, whose length is the
  fractional part. At energy \<open>1\<close> exactly 10 particles are appended, at energy \<open>0\<close>
  one or two.
\<close>

theorem spawn_count_stochastic_rounding:
  assumes "0 \<le> e" and "e \<le> 1" and "0 \<le> u" and "u < 1"
  shows "spawn_count e u = \<lfloor>lerp 1.5 10.0 e\<rfloor> + (if u < frac (lerp 1.5 10.0 e) then 1 else 0)
       \<and> {v. 0 \<le> v \<and> v < 1 \<and> spawn_count e v = \<lfloor>lerp 1.5 10.0 e\<rfloor> + 1} = {0 ..< frac (lerp 1.5 10.0 e)}
       \<and> length (spawn_append rs (w \<lparr> energy := e \<rparr>)) = length (particles w) + nat (spawn_count e (rs 0))
       \<and> spawn_count 1 u = 10
       \<and> (spawn_count 0 u = 1 \<or> spawn_count 0 u = 2)"
proof -
  have c1: "spawn_count e v = \<lfloor>lerp 1.5 10.0 e\<rfloor> + (if v < frac (lerp 1.5 10.0 e) then 1 else 0)" for v
    by (rule spawn_count_eq [OF assms(1,2)])
  have "frac (lerp 1.5 10.0 e) < 1" by (rule frac_lt_1)
  then have c2: "{v. 0 \<le> v \<and> v < 1 \<and> spawn_count e v = \<lfloor>lerp 1.5 10.0 e\<rfloor> + 1} = {0 ..< frac (lerp 1.5 10.0 e)}"
    by (auto simp: c1)
  have c3: "length (spawn_append rs (w \<lparr> energy := e \<rparr>)) = length (particles w) + nat (spawn_count e (rs 0))"
    by (simp add: spawn_append_eq)
  have c4: "spawn_count 1 u = 10" by (rule spawn_count_one [OF assms(3)])
  have c5: "spawn_count 0 u = 1 \<or> spawn_count 0 u = 2" by (simp add: spawn_count_zero)
  from c1 [of u] c2 c3 c4 c5 show ?thesis by blast
qed

theorem spawn_count_stochastic_rounding_witness:
  "(0::real) \<le> 1 / 2 \<and> (1 / 2 :: real) \<le> 1 \<and> (0::real) \<le> 1 / 4 \<and> (1 / 4 :: real) < 1
   \<and> spawn_count (1 / 2) (1 / 4) = \<lfloor>lerp 1.5 10.0 (1 / 2)\<rfloor> + (if 1 / 4 < frac (lerp 1.5 10.0 (1 / 2)) then 1 else 0)
   \<and> {v. 0 \<le> v \<and> v < 1 \<and> spawn_count (1 / 2) v = \<lfloor>lerp 1.5 10.0 (1 / 2)\<rfloor> + 1} = {0 ..< frac (lerp 1.5 10.0 (1 / 2))}
   \<and> length (spawn_append zero_draws (init_widget \<lparr> energy := 1 / 2 \<rparr>))
        = length (particles init_widget) + nat (spawn_count (1 / 2) (zero_draws 0))
   \<and> spawn_count 1 (1 / 4) = 10
   \<and> (spawn_count 0 (1 / 4) = 1 \<or> spawn_count 0 (1 / 4) = 2)"
proof -
  have h1: "(0::real) \<le> 1 / 2" and h2: "(1 / 2 :: real) \<le> 1"
    and h3: "(0::real) \<le> 1 / 4" and h4: "(1 / 4 :: real) < 1" by simp_all
  from spawn_count_stochastic_rounding [OF h1 h2 h3 h4, of zero_draws init_widget] h1 h2 h3 h4
  show ?thesis by blast
qed

text \<open>
  Claim C10. For an energy in \<open>[0, 1]\<close> and draws in \<open>[0, 1)\<close>, the base count
  \<open>floor (lerp 1.5 10.0 energy)\<close> is at least 1, a spawn call appends at least one
  particle, and the collection is not empty after the spawn call nor after the whole
  tick (spawn, then update with a time step below the shortest initial life \<open>0.55\<close>,
  as the widget's \<open>1 / 120\<close> is).
\<close>

theorem tick_never_empty:
  assumes "0 \<le> energy w" and "energy w \<le> 1" and "\<forall>k. 0 \<le> rs k \<and> rs k < 1"
    and "dt w < 0.55"
  shows "1 \<le> \<lfloor>lerp 1.5 10.0 (energy w)\<rfloor>
       \<and> length (particles w) + 1 \<le> length (spawn_append rs w)
       \<and> particles (spawn_particles rs w) \<noteq> []
       \<and> (\<exists>w'. tick rs rm w = Inr w' \<and> particles w' \<noteq> [])"
proof -
  define n where "n = nat (spawn_count (energy w) (rs 0))"
  define g where "g = (\<lambda>i. new_particle (energy w) rs (1 + 9 * i))"
  define allp where "allp = spawn_append rs w"
  define capped where "capped = particles (spawn_particles rs w)"
  have c1: "1 \<le> \<lfloor>lerp 1.5 10.0 (energy w)\<rfloor>"
    using spawn_count_ge1 [OF assms(1,2), of "rs 0"] by blast
  have "1 \<le> spawn_count (energy w) (rs 0)"
    using spawn_count_ge1 [OF assms(1,2), of "rs 0"] by blast
  then have n1: "1 \<le> n" unfolding n_def by linarith
  have allp: "allp = particles w @ map g [0..<n]"
    by (simp add: allp_def spawn_append_eq g_def n_def)
  have c2: "length (particles w) + 1 \<le> length allp" using n1 by (simp add: allp)
  have ne: "[0..<n] \<noteq> []" using n1 by simp
  have "last allp = g (last [0..<n])" using ne by (simp add: allp last_map)
  then obtain k where lastp: "last allp = new_particle (energy w) rs k" by (simp add: g_def)
  have "0 \<le> rs (k + 6)" "0 \<le> rs (k + 7)" using assms(3) by simp_all
  then have lastlife: "0.55 \<le> life (last allp)"
    using new_particle_ok [OF assms(1,2), of rs k] by (simp add: lastp)
  have capped: "capped = drop (length allp - 2500) allp"
    by (simp add: capped_def spawn_particles_def cap_suffix allp_def)
  have lc: "length capped = min 2500 (length allp)" by (simp add: capped)
  then have c3: "capped \<noteq> []" using c2 by auto
  have "length allp - 2500 < length allp" using c2 by simp
  then have lc2: "last capped = last allp" by (simp add: capped)
  have m1: "last capped \<in> set capped" using c3 by (rule last_in_set)
  have m2: "0 < life (last capped) - dt w" using lastlife assms(4) by (simp add: lc2)
  from m1 m2 have live: "filter (\<lambda>p. 0 < life p - dt w) capped \<noteq> []"
    by (auto simp: filter_empty_conv)
  have "\<exists>w'. tick rs rm w = Inr w' \<and> particles w' \<noteq> []"
    using live by (simp add: tick_def update_particles_eq capped_def spawn_particles_def)
  with c1 c2 c3 show ?thesis by (simp add: allp_def capped_def)
qed

theorem tick_never_empty_witness:
  "0 \<le> energy init_widget \<and> energy init_widget \<le> 1
   \<and> (\<forall>k. 0 \<le> zero_draws k \<and> zero_draws k < 1) \<and> dt init_widget < 0.55
   \<and> 1 \<le> \<lfloor>lerp 1.5 10.0 (energy init_widget)\<rfloor>
   \<and> length (particles init_widget) + 1 \<le> length (spawn_append zero_draws init_widget)
   \<and> particles (spawn_particles zero_draws init_widget) \<noteq> []
   \<and> (\<exists>w'. tick zero_draws 0 init_widget = Inr w' \<and> particles w' \<noteq> [])"
proof -
  have h1: "0 \<le> energy init_widget" and h2: "energy init_widget \<le> 1"
    and h4: "dt init_widget < 0.55"
    by (simp_all add: init_widget_def)
  have h3: "\<forall>k. 0 \<le> zero_draws k \<and> zero_draws k < 1" by (simp add: zero_draws_def)
  from tick_never_empty [OF h1 h2 h3 h4, of 0] h1 h2 h3 h4 show ?thesis by blast
qed

section \<open>Properties of updating\<close>

text \<open>
  Claim C8. For a positive time step and a particle with a non-negative radius and
  \<open>life \<le> life0\<close> (as every spawned particle has, and as the step preserves), if the
  particle survives the step then its radius does not decrease, its age fraction
  \<open>1 - life / life0\<close> does not decrease and lies in \<open>[0, 1]\<close> after the step; the same
  holds of the age the code computes with its guarded divisor.
\<close>

theorem survivor_monotone:
  assumes "0 < d" and "0 \<le> radius p" and "life p \<le> life0 p"
    and "update_particle d b s dm t p = Inr (Some p')"
  shows "radius p \<le> radius p'
       \<and> 1 - life p / life0 p \<le> 1 - life p' / life0 p'
       \<and> 0 \<le> 1 - life p' / life0 p' \<and> 1 - life p' / life0 p' \<le> 1
       \<and> (\<exists>a a'. age01_of p = Inr a \<and> age01_of p' = Inr a' \<and> a \<le> a' \<and> 0 \<le> a' \<and> a' \<le> 1)
       \<and> 0 \<le> radius p' \<and> life p' \<le> life0 p'"
proof -
  from assms(4) have alive: "0 < life p - d" and p': "p' = stepped d b s dm t p"
    by (simp_all add: update_particle_eq split: if_splits)
  have l: "life p' = life p - d" and l0: "life0 p' = life0 p"
    and r: "radius p' = radius p * (1 + 0.25 * d)"
    by (simp_all add: p' stepped_def)
  have pos0: "0 < life0 p" using alive assms(1,3) by simp
  have "radius p * 1 \<le> radius p * (1 + 0.25 * d)"
    using assms(1,2) by (intro mult_left_mono) simp_all
  then have c1: "radius p \<le> radius p'" by (simp add: r)
  have "(life p - d) / life0 p \<le> life p / life0 p"
    using assms(1) pos0 by (simp add: divide_le_cancel)
  then have c2: "1 - life p / life0 p \<le> 1 - life p' / life0 p'" by (simp add: l l0)
  have "(life p - d) / life0 p \<le> 1" using assms(1,3) pos0 by simp
  then have c3: "0 \<le> 1 - life p' / life0 p'" by (simp add: l l0)
  have "0 \<le> (life p - d) / life0 p" using alive pos0 by simp
  then have c4: "1 - life p' / life0 p' \<le> 1" by (simp add: l l0)
  define m where "m = max (life0 p) (1 / 1000000)"
  have m: "0 < m" "life0 p \<le> m" by (simp_all add: m_def)
  have "(life p - d) / m \<le> life p / m" using assms(1) m by (simp add: divide_le_cancel)
  moreover have "(life p - d) / m \<le> 1" using assms(1,3) m by simp
  moreover have "0 \<le> (life p - d) / m" using alive m by simp
  ultimately have c5: "\<exists>a a'. age01_of p = Inr a \<and> age01_of p' = Inr a' \<and> a \<le> a' \<and> 0 \<le> a' \<and> a' \<le> 1"
    by (simp add: age01_of_eq l l0 m_def [symmetric])
  have c6: "0 \<le> radius p'" using c1 assms(2) by simp
  have c7: "life p' \<le> life0 p'" using assms(1,3) by (simp add: l l0)
  from c1 c2 c3 c4 c5 c6 c7 show ?thesis by blast
qed

theorem survivor_monotone_witness:
  "(0::real) < 1 / 120 \<and> 0 \<le> radius test_particle \<and> life test_particle \<le> life0 test_particle
   \<and> update_particle (1 / 120) 2 1 1 0 test_particle
       = Inr (Some (stepped (1 / 120) 2 1 1 0 test_particle))
   \<and> radius test_particle \<le> radius (stepped (1 / 120) 2 1 1 0 test_particle)
   \<and> 1 - life test_particle / life0 test_particle
       \<le> 1 - life (stepped (1 / 120) 2 1 1 0 test_particle)
             / life0 (stepped (1 / 120) 2 1 1 0 test_particle)
   \<and> 0 \<le> 1 - life (stepped (1 / 120) 2 1 1 0 test_particle)
             / life0 (stepped (1 / 120) 2 1 1 0 test_particle)
   \<and> 1 - life (stepped (1 / 120) 2 1 1 0 test_particle)
         / life0 (stepped (1 / 120) 2 1 1 0 test_particle) \<le> 1"
proof -
  have h1: "(0::real) < 1 / 120" by simp
  have h2: "0 \<le> radius test_particle" and h3: "life test_particle \<le> life0 test_particle"
    by (simp_all add: test_particle_def)
  have h4: "update_particle (1 / 120) 2 1 1 0 test_particle
       = Inr (Some (stepped (1 / 120) 2 1 1 0 test_particle))"
    by (simp add: update_particle_eq test_particle_def)
  from survivor_monotone [OF h1 h2 h3 h4] h1 h2 h3 h4 show ?thesis by blast
qed

text \<open>
  Claim C9. The collection is kept in insertion order: spawn appends the new particles
  after the old ones and the cap removes only a prefix of that list; advance maps the
  survivors in place, so the particles of the new collection (identified by the fields
  fixed at spawn) occur in the order they had in the old one.
\<close>

theorem insertion_order_preserved:
  "(\<exists>new k. spawn_append rs w = particles w @ new
        \<and> particles (spawn_particles rs w) = drop k (particles w @ new))
   \<and> (\<exists>w'. update_particles d rm w = Inr w'
        \<and> particles w' =
            map (stepped d (lerp 1.2 3.2 (energy w)) (lerp 0.8 2.1 (energy w))
                   (lerp 0.985 0.992 (energy w)) (real_of_int (rm mod 1000) / 1000))
              (filter (\<lambda>p. 0 < life p - d) (particles w))
        \<and> subseq (map (\<lambda>p. (seed p, life0 p)) (particles w'))
                 (map (\<lambda>p. (seed p, life0 p)) (particles w)))"
proof -
  let ?f = "stepped d (lerp 1.2 3.2 (energy w)) (lerp 0.8 2.1 (energy w))
                   (lerp 0.985 0.992 (energy w)) (real_of_int (rm mod 1000) / 1000)"
  let ?live = "filter (\<lambda>p. 0 < life p - d) (particles w)"
  let ?tag = "\<lambda>p. (seed p, life0 p)"
  obtain new where new: "spawn_append rs w = particles w @ new"
    by (simp add: spawn_append_eq)
  have "particles (spawn_particles rs w) = drop (length (particles w @ new) - 2500) (particles w @ new)"
    by (simp add: spawn_particles_def cap_suffix new)
  with new have a: "\<exists>new k. spawn_append rs w = particles w @ new
        \<and> particles (spawn_particles rs w) = drop k (particles w @ new)" by blast
  have eq: "map ?tag (map ?f ?live) = map ?tag ?live" by (simp add: stepped_def)
  have sub: "subseq (map ?tag ?live) (map ?tag (particles w))"
    by (intro subseq_map subseq_filter_left)
  have "subseq (map ?tag (map ?f ?live)) (map ?tag (particles w))"
    unfolding eq by (rule sub)
  then have b: "\<exists>w'. update_particles d rm w = Inr w' \<and> particles w' = map ?f ?live
        \<and> subseq (map ?tag (particles w')) (map ?tag (particles w))"
    by (simp add: update_particles_eq)
  from a b show ?thesis by blast
qed

section \<open>Properties of rendering\<close>

lemma draw_particle_total: "draw_particle e p = Inr (projr (draw_particle e p))"
  by (simp add: draw_particle_def age01_of_eq)

lemma draw_loop_eq:
  "draw_loop e ps drawn = Inr (drawn @ map (\<lambda>p. projr (draw_particle e p)) ps)"
proof (induction ps arbitrary: drawn)
  case Nil
  then show ?case by simp
next
  case (Cons p ps)
  obtain s where s: "draw_particle e p = Inr s"
    using draw_particle_total [of e p] by blast
  with Cons show ?case by simp
qed

lemma sorted_reverse_mset: "mset (sorted_reverse f xs) = mset xs"
  by (simp add: sorted_reverse_def)

lemma sorted_reverse_descending: "sorted_wrt (\<lambda>a b. f b \<le> f a) (sorted_reverse f xs)"
proof -
  have "sorted (map f (sort_key f (rev xs)))" by simp
  then have "sorted_wrt (\<lambda>a b. f a \<le> f b) (sort_key f (rev xs))"
    by (simp add: sorted_wrt_map)
  then show ?thesis by (simp add: sorted_reverse_def sorted_wrt_rev)
qed

lemma depth_z: "depth p = vec_z (pos p)"
  by (simp add: depth_def dotProduct_def cam_dir_def)

text \<open>
  What the renderer does: painting never fails and draws one sphere per particle of
  the collection. The particles drawn are a permutation of the collection (none
  omitted, none twice), taken in an order in which the dot product of the position
  with \<^verbatim>\<open>cam_dir\<close> never increases. \<^verbatim>\<open>cam_dir\<close> is the constant \<open>(0, 0, 1)\<close>, so
  the spheres and their order do not depend on the rotation angles of the camera.
\<close>

lemma paintGL_draws_all_sorted:
  "\<exists>qs ds. paintGL w = Inr ds
      \<and> map Inr ds = map (draw_particle (energy w)) qs
      \<and> mset qs = mset (particles w)
      \<and> sorted_wrt (\<lambda>p q. dotProduct (pos q) cam_dir \<le> dotProduct (pos p) cam_dir) qs
      \<and> map sz ds = map (\<lambda>p. dotProduct (pos p) cam_dir) qs
      \<and> length ds = length (particles w)
      \<and> paintGL (w \<lparr> rot_x := ax, rot_y := ay \<rparr>) = Inr ds"
proof -
  let ?qs = "sorted_reverse depth (particles w)"
  let ?ds = "map (\<lambda>p. projr (draw_particle (energy w) p)) ?qs"
  have a: "paintGL w = Inr ?ds" by (simp add: paintGL_def draw_loop_eq)
  have b: "map Inr ?ds = map (draw_particle (energy w)) ?qs"
    using draw_particle_total by simp
  have c: "mset ?qs = mset (particles w)" by (rule sorted_reverse_mset)
  have d: "sorted_wrt (\<lambda>p q. dotProduct (pos q) cam_dir \<le> dotProduct (pos p) cam_dir) ?qs"
    using sorted_reverse_descending [of depth "particles w"] by (simp add: depth_def)
  have e: "map sz ?ds = map (\<lambda>p. dotProduct (pos p) cam_dir) ?qs"
    by (simp add: draw_particle_def age01_of_eq dotProduct_def cam_dir_def)
  have "length ?qs = length (particles w)"
    using c by (rule mset_eq_length)
  then have f: "length ?ds = length (particles w)" by simp
  have g: "paintGL (w \<lparr> rot_x := ax, rot_y := ay \<rparr>) = Inr ?ds"
    by (simp add: paintGL_def draw_loop_eq)
  from a b c d e f g show ?thesis by blast
qed

lemma view_depth_dot: "view_depth w p = dotProduct p (view_forward w) + 5"
  by (simp add: view_depth_def eye_coords_def vec_add_def rotate_x_def rotate_y_def
        dotProduct_def view_forward_def algebra_simps)

lemma cos_init_angles: "0 < cos (radians 18) * cos (radians 35)"
proof -
  have "0 < cos (radians 18)"
    using pi_gt_zero by (intro cos_gt_zero_pi) (simp_all add: radians_def)
  moreover have "0 < cos (radians 35)"
    using pi_gt_zero by (intro cos_gt_zero_pi) (simp_all add: radians_def)
  ultimately show ?thesis by simp
qed

lemma paintGL_two_particles:
  "map_sum id (map sz) (paintGL two_particle_widget) = Inr [1 / 10, - (1 / 10)]"
proof -
  have "sorted_reverse depth [far_particle, near_particle] = [near_particle, far_particle]"
    by (simp add: sorted_reverse_def depth_z far_particle_def near_particle_def)
  then show ?thesis
    by (simp add: paintGL_def two_particle_widget_def draw_loop_eq draw_particle_def
          age01_of_eq far_particle_def near_particle_def)
qed

text \<open>
  Claim C4 is not met by the code. The claim (and the comment above the sort,
  ``render particles back-to-front'') asks for descending depth along the camera's
  view-forward vector, farthest first. The sort key is the dot product with the
  constant \<open>(0, 0, 1)\<close> instead. With the camera as \<^verbatim>\<open>__init__\<close> leaves it and the
  collection \<open>[far_particle, near_particle]\<close>, the sphere of \<open>near_particle\<close> is drawn
  first, although its dot product with the view-forward vector, and so its depth in
  front of the camera, is the smaller one: the nearer particle is drawn first.
\<close>

theorem paintGL_nearest_first:
  "map_sum id (map sz) (paintGL two_particle_widget) = Inr [vec_z (pos near_particle), vec_z (pos far_particle)]
   \<and> dotProduct (pos near_particle) (view_forward two_particle_widget)
       < dotProduct (pos far_particle) (view_forward two_particle_widget)
   \<and> view_depth two_particle_widget (pos near_particle)
       < view_depth two_particle_widget (pos far_particle)"
proof -
  have a: "map_sum id (map sz) (paintGL two_particle_widget)
         = Inr [vec_z (pos near_particle), vec_z (pos far_particle)]"
    using paintGL_two_particles by (simp add: far_particle_def near_particle_def)
  have rot: "rot_x two_particle_widget = 18" "rot_y two_particle_widget = 35"
    by (simp_all add: two_particle_widget_def init_widget_def)
  have b: "dotProduct (pos near_particle) (view_forward two_particle_widget)
       < dotProduct (pos far_particle) (view_forward two_particle_widget)"
    using cos_init_angles
    by (simp add: dotProduct_def view_forward_def rot far_particle_def near_particle_def)
  then have c: "view_depth two_particle_widget (pos near_particle)
       < view_depth two_particle_widget (pos far_particle)"
    by (simp add: view_depth_dot)
  from a b c show ?thesis by blast
qed

section \<open>Clamping of out-of-range inputs\<close>

text \<open>
  Claim C5 as stated fails: spawn at energy \<open>2\<close> does not behave as at the clamped
  energy \<open>1\<close> (19 particles instead of 10 for the draw \<open>0\<close>), and an update with
  \<open>dt = -1\<close> is not the update with the time step floored at \<open>0\<close>.
\<close>

theorem clamping_counterexample:
  "spawn_count 2 0 \<noteq> spawn_count (clamp01 2) 0
   \<and> update_particle (- 1) 0 0 0 0 test_particle \<noteq> update_particle (max 0 (- 1)) 0 0 0 0 test_particle"
proof -
  have f: "\<lfloor>37 / 2 :: real\<rfloor> = 18" by (simp add: floor_eq_iff)
  have a: "spawn_count 2 0 = 19"
    by (simp add: spawn_count_def Let_def py_int_def lerp_def f)
  have b: "spawn_count (clamp01 2) 0 = 10"
    by (simp add: spawn_count_def Let_def py_int_def lerp_def clamp01_def)
  have c: "update_particle (- 1) 0 0 0 0 test_particle \<noteq> update_particle (max 0 (- 1)) 0 0 0 0 test_particle"
    by (simp add: update_particle_eq test_particle_def stepped_def move_particle_def Let_def)
  from a b c show ?thesis by simp
qed

text \<open>
  Claim C5, amended. The color function accepts every energy and age fraction and
  clamps them: its result is the colour of the arguments clamped to \<open>[0, 1]\<close>. Spawn
  and advance complete without error on the valid input domain (an energy in
  \<open>[0, 1]\<close>, draws in \<open>[0, 1)\<close>, the widget's time step \<open>1 / 120\<close>), and they do not
  clamp: the spawn count is computed from \<open>lerp 1.5 10.0 energy\<close> of the energy as
  given, and a particle kept by advance has its life decremented by \<open>dt\<close> as given.
\<close>

theorem color_clamps_spawn_advance_do_not:
  assumes "0 \<le> energy w" and "energy w \<le> 1" and "dt w = 1 / 120"
    and "\<forall>k. 0 \<le> rs k \<and> rs k < 1"
    and "update_particle d b s dm t p = Inr (Some p')"
  shows "fire_color e a = fire_color (clamp01 e) (clamp01 a)
       \<and> (\<exists>w'. tick rs rm w = Inr w')
       \<and> spawn_count e u =
           py_int (lerp 1.5 10.0 e)
             + (if u < lerp 1.5 10.0 e - real_of_int (py_int (lerp 1.5 10.0 e)) then 1 else 0)
       \<and> life p' = life p - d"
proof -
  have a: "fire_color e a = fire_color (clamp01 e) (clamp01 a)" by (rule fire_color_clamp)
  have b: "\<exists>w'. tick rs rm w = Inr w'" by (simp add: tick_def update_particles_eq)
  have c: "spawn_count e u =
           py_int (lerp 1.5 10.0 e)
             + (if u < lerp 1.5 10.0 e - real_of_int (py_int (lerp 1.5 10.0 e)) then 1 else 0)"
    by (simp add: spawn_count_def Let_def)
  from assms(5) have "p' = stepped d b s dm t p"
    by (simp add: update_particle_eq split: if_splits)
  then have d: "life p' = life p - d" by (simp add: life_stepped)
  from a b c d show ?thesis by blast
qed

theorem color_clamps_spawn_advance_do_not_witness:
  "0 \<le> energy init_widget \<and> energy init_widget \<le> 1 \<and> dt init_widget = 1 / 120
   \<and> (\<forall>k. 0 \<le> zero_draws k \<and> zero_draws k < 1)
   \<and> update_particle (- 1) 0 0 0 0 test_particle = Inr (Some (stepped (- 1) 0 0 0 0 test_particle))
   \<and> fire_color 2 (- 1) = fire_color (clamp01 2) (clamp01 (- 1))
   \<and> (\<exists>w'. tick zero_draws 0 init_widget = Inr w')
   \<and> spawn_count 2 0 =
           py_int (lerp 1.5 10.0 2)
             + (if 0 < lerp 1.5 10.0 2 - real_of_int (py_int (lerp 1.5 10.0 2)) then 1 else 0)
   \<and> life (stepped (- 1) 0 0 0 0 test_particle) = life test_particle - (- 1)"
proof -
  have h1: "0 \<le> energy init_widget" and h2: "energy init_widget \<le> 1"
    and h3: "dt init_widget = 1 / 120"
    by (simp_all add: init_widget_def)
  have h4: "\<forall>k. 0 \<le> zero_draws k \<and> zero_draws k < 1" by (simp add: zero_draws_def)
  have h5: "update_particle (- 1) 0 0 0 0 test_particle
      = Inr (Some (stepped (- 1) 0 0 0 0 test_particle))"
    by (simp add: update_particle_eq test_particle_def)
  from color_clamps_spawn_advance_do_not [OF h1 h2 h3 h4 h5, where e = 2 and a = "- 1" and rm = 0 and u = 0] h1 h2 h3 h4 h5
  show ?thesis by blast
qed

end
